theory Spec2Isabelle
  imports Complex_Main
begin

section \<open>Points and point arithmetic (lib/math/PointMath.js)\<close>

text \<open>
  A point is the two-element array \<open>[x, y]\<close> of the source. In the spline utilities the
  coordinates are taken as real numbers: rounding, overflow and the special values of
  IEEE doubles are left out there.
\<close>

type_synonym Point = "real \<times> real"
type_synonym Path = "Point list"
type_synonym SimplePathList = "Path list"

text \<open>
  \<open>PointMath.sum\<close>, \<open>PointMath.difference\<close> and \<open>PointMath.scaledBy\<close>, for any
  kind of number that has the operation (\<open>sum\<close> alone would clash with the sum over a
  set of HOL).
\<close>

definition sum_points :: "'a::plus \<times> 'a \<Rightarrow> 'a \<times> 'a \<Rightarrow> 'a \<times> 'a" where
  "sum_points p1 p2 = (fst p1 + fst p2, snd p1 + snd p2)"

definition difference :: "'a::minus \<times> 'a \<Rightarrow> 'a \<times> 'a \<Rightarrow> 'a \<times> 'a" where
  "difference p1 p2 = (fst p1 - fst p2, snd p1 - snd p2)"

definition scaledBy :: "'a::times \<times> 'a \<Rightarrow> 'a \<Rightarrow> 'a \<times> 'a" where
  "scaledBy p scalar = (fst p * scalar, snd p * scalar)"

section \<open>Errors\<close>

text \<open>
  Every \<open>throw\<close> of the modelled functions is one constructor:
  \<^item> \<open>AtLeastOnePointRequired\<close>: "At least 1 point required" (both spline fits);
  \<^item> \<open>NotASimpleCurve n\<close>: more than four points given to \<open>buildSimplePathDString\<close>;
  \<^item> \<open>PointCountNot234\<close>: "# Points must be 2, 3, or 4";
  \<^item> \<open>BrushTipNotSet\<close>: "Brush tip not set" (\<open>fromBrushTip\<close>);
  \<^item> \<open>NullDereference\<close>: the TypeError JavaScript raises for \<open>brushTip[k]\<close> when
    \<open>brushTip\<close> is \<open>null\<close>;
  \<^item> \<open>UnsupportedSVGCommand name\<close>: the default arm of \<open>processCommand\<close>.
\<close>

datatype error =
    AtLeastOnePointRequired
  | NotASimpleCurve nat
  | PointCountNot234
  | BrushTipNotSet
  | NullDereference
  | UnsupportedSVGCommand string

section \<open>Spline fitting (spline.js)\<close>

text \<open>
  The source tree holds \<open>spline.js\<close> inside \<open>src/lib/parseImportMetaUrl.js\<close>, in two
  revisions: lines 27 to 208 (both fits, the serialisation with a \<open>primitive\<close>
  argument) and lines 208 to 342 (Catmull-Rom only, the serialisation that
  \<open>SVGBuilder.js\<close> calls). \<open>performCatmullRom\<close> is the same text in both.
\<close>

text \<open>
  One pass of the loop body of \<open>performCatmullRom\<close>: the neighbours are clamped with
  \<open>Math.max(i - 1, 0)\<close> and \<open>Math.min(i + 2, points.length - 1)\<close>, and the segment
  pushed is \<open>[p1, cp1, cp2, p2]\<close>.
\<close>

definition catmullRomStep :: "Path \<Rightarrow> real \<Rightarrow> nat \<Rightarrow> Path" where
  "catmullRomStep points tension i =
     (let p0 = points ! nat (max (int i - 1) 0);
          p1 = points ! i;
          p2 = points ! (i + 1);
          p3 = points ! nat (min (int i + 2) (int (length points) - 1));
          t1x = ((fst p2 - fst p0) / 2) * tension;
          t1y = ((snd p2 - snd p0) / 2) * tension;
          t2x = ((fst p3 - fst p1) / 2) * tension;
          t2y = ((snd p3 - snd p1) / 2) * tension;
          cp1 = (fst p1 + t1x / 3, snd p1 + t1y / 3);
          cp2 = (fst p2 - t2x / 3, snd p2 - t2y / 3)
      in [p1, cp1, cp2, p2])"

text \<open>
  \<open>for (let i = 0; i < points.length - 1; i++) result.push(...)\<close> collects the steps for
  \<open>i = 0, ..., points.length - 2\<close> in order.
\<close>

definition performCatmullRom :: "Path \<Rightarrow> real \<Rightarrow> error + SimplePathList" where
  "performCatmullRom points tension =
     (if length points = 0 then Inl AtLeastOnePointRequired
      else if length points < 4 then Inr [points]
      else Inr (map (catmullRomStep points tension) [0 ..< length points - 1]))"

text \<open>
  The loop body of \<open>performCanonicalSpline\<close>; the loop is
  \<open>for (let i = 1; i < points.length - 2; i++)\<close>, so no index is clamped.
\<close>

definition canonicalSplineStep :: "Path \<Rightarrow> real \<Rightarrow> nat \<Rightarrow> Path" where
  "canonicalSplineStep points tension i =
     (let p0 = points ! (i - 1);
          p1 = points ! i;
          p2 = points ! (i + 1);
          p3 = points ! (i + 2);
          cp1x = fst p1 + ((fst p2 - fst p0) / 6) * tension;
          cp1y = snd p1 + ((snd p2 - snd p0) / 6) * tension;
          cp2x = fst p2 - ((fst p3 - fst p1) / 6) * tension;
          cp2y = snd p2 - ((snd p3 - snd p1) / 6) * tension
      in [p1, (cp1x, cp1y), (cp2x, cp2y), p2])"

definition performCanonicalSpline :: "Path \<Rightarrow> real \<Rightarrow> error + SimplePathList" where
  "performCanonicalSpline points tension =
     (if length points = 0 then Inl AtLeastOnePointRequired
      else if length points < 5 then Inr [points]
      else Inr (map (canonicalSplineStep points tension) [1 ..< length points - 2]))"

section \<open>Path serialisation (spline.js, current revision)\<close>

text \<open>
  Template literals print a number with JavaScript's number-to-string conversion, which
  is no code of this repository: the functions below take it as the parameter \<open>fmt\<close>.
\<close>

text \<open>
  \<open>buildSimplePathDString(points, individual = true)\<close>. The prefix of the
  \<open>individual\<close> form is written in the source between double quotes, not backquotes,
  so it is the literal text and no point is substituted into it.
\<close>

definition buildSimplePathDString :: "(real \<Rightarrow> string) \<Rightarrow> Path \<Rightarrow> bool \<Rightarrow> error + string" where
  "buildSimplePathDString fmt points individual =
     (if length points > 4 then Inl (NotASimpleCurve (length points))
      else if length points \<notin> {2, 3, 4} then Inl PointCountNot234
      else
        let s = (if individual then ''M ${points[0][0]} ${points[0][1]} '' else '''') in
        if length points = 2 then
          Inr (s @ ''L '' @ fmt (fst (points ! 1)) @ '' '' @ fmt (snd (points ! 1)))
        else if length points = 3 then
          Inr (s @ ''Q '' @ fmt (fst (points ! 1)) @ '' '' @ fmt (snd (points ! 1))
                 @ '' '' @ fmt (fst (points ! 2)) @ '' '' @ fmt (snd (points ! 2)))
        else
          Inr (s @ ''C '' @ fmt (fst (points ! 1)) @ '' '' @ fmt (snd (points ! 1))
                 @ '' '' @ fmt (fst (points ! 2)) @ '' '' @ fmt (snd (points ! 2))
                 @ '' '' @ fmt (fst (points ! 3)) @ '' '' @ fmt (snd (points ! 3))))"

text \<open>\<open>Array.prototype.map\<close> with a callback that may throw: the first error ends the run.\<close>

fun mapE :: "('a \<Rightarrow> error + 'b) \<Rightarrow> 'a list \<Rightarrow> error + 'b list" where
  "mapE f [] = Inr []"
| "mapE f (x # xs) =
     (case f x of
        Inl e \<Rightarrow> Inl e
      | Inr y \<Rightarrow> (case mapE f xs of Inl e \<Rightarrow> Inl e | Inr ys \<Rightarrow> Inr (y # ys)))"

text \<open>\<open>Array.prototype.join(sep)\<close> on an array of strings.\<close>

fun join :: "string \<Rightarrow> string list \<Rightarrow> string" where
  "join sep [] = []"
| "join sep [x] = x"
| "join sep (x # y # ys) = x @ sep @ join sep (y # ys)"

text \<open>
  \<open>buildSplineDString(points, tension = 1.0)\<close>: the decomposition is computed first (and
  throws on an empty list), then the move-to is written and the tokens of the segments,
  joined by one space, are appended to it.
\<close>

definition buildSplineDString :: "(real \<Rightarrow> string) \<Rightarrow> Path \<Rightarrow> real \<Rightarrow> error + string" where
  "buildSplineDString fmt points tension =
     (case performCatmullRom points tension of
        Inl e \<Rightarrow> Inl e
      | Inr decomposed \<Rightarrow>
          (case mapE (\<lambda>c. buildSimplePathDString fmt c False) decomposed of
             Inl e \<Rightarrow> Inl e
           | Inr tokens \<Rightarrow>
               Inr (''M '' @ fmt (fst (points ! 0)) @ '' '' @ fmt (snd (points ! 0))
                      @ join '' '' tokens)))"

text \<open>
  The earlier revision of the two functions (the first copy of spline.js): every simple
  path is written with a move-to of its own, and the spline is the tokens joined by a
  space. \<open>primitive\<close> selects the fit: \<open>"cubic"\<close> the Canonical Spline, anything else
  Catmull-Rom.
\<close>

definition buildSimplePathDString_rev1 :: "(real \<Rightarrow> string) \<Rightarrow> Path \<Rightarrow> error + string" where
  "buildSimplePathDString_rev1 fmt points =
     (if length points > 4 then Inl (NotASimpleCurve (length points))
      else if length points \<notin> {2, 3, 4} then Inl PointCountNot234
      else
        let m = ''M '' @ fmt (fst (points ! 0)) @ '' '' @ fmt (snd (points ! 0)) in
        if length points = 2 then
          Inr (m @ '' L '' @ fmt (fst (points ! 1)) @ '' '' @ fmt (snd (points ! 1)))
        else if length points = 3 then
          Inr (m @ '' Q '' @ fmt (fst (points ! 1)) @ '' '' @ fmt (snd (points ! 1))
                 @ '' '' @ fmt (fst (points ! 2)) @ '' '' @ fmt (snd (points ! 2)))
        else
          Inr (m @ '' C '' @ fmt (fst (points ! 1)) @ '' '' @ fmt (snd (points ! 1))
                 @ '' '' @ fmt (fst (points ! 2)) @ '' '' @ fmt (snd (points ! 2))
                 @ '' '' @ fmt (fst (points ! 3)) @ '' '' @ fmt (snd (points ! 3))))"

definition buildSplineDString_rev1 ::
    "(real \<Rightarrow> string) \<Rightarrow> Path \<Rightarrow> string \<Rightarrow> real \<Rightarrow> error + string" where
  "buildSplineDString_rev1 fmt points primitive tension =
     (case (if primitive = ''cubic'' then performCanonicalSpline points tension
            else performCatmullRom points tension) of
        Inl e \<Rightarrow> Inl e
      | Inr decomposed \<Rightarrow>
          (case mapE (buildSimplePathDString_rev1 fmt) decomposed of
             Inl e \<Rightarrow> Inl e
           | Inr tokens \<Rightarrow> Inr (join '' '' tokens)))"

text \<open>The letters of a move-to command.\<close>

definition isMoveTo :: "char \<Rightarrow> bool" where
  "isMoveTo c = (c = CHR ''M'' \<or> c = CHR ''m'')"

text \<open>
  A stand-in for the number formatting, used in the examples: the decimal digits of the
  integer part, with a minus sign for negative numbers. On integer-valued numbers below
  \<open>10^21\<close> this is what JavaScript prints.
\<close>

function showNat :: "nat \<Rightarrow> string" where
  "showNat n =
     (if n < 10 then [''0123456789'' ! n]
      else showNat (n div 10) @ [''0123456789'' ! (n mod 10)])"
  by pat_completeness auto
termination
  by (relation "measure (\<lambda>n. n)") auto

declare showNat.simps [simp del]

definition showInteger :: "real \<Rightarrow> string" where
  "showInteger v = (if v < 0 then ''-'' else '''') @ showNat (nat \<lfloor>\<bar>v\<bar>\<rfloor>)"

section \<open>JavaScript numbers with their special values\<close>

text \<open>
  The path interpreter and the bounding-box combination meet values that are no finite
  number: \<open>Infinity\<close> and \<open>-Infinity\<close> start the running minimum and maximum,
  \<open>NaN\<close> comes out of \<open>Infinity - Infinity\<close>, and destructuring an argument list that
  is too short yields \<open>undefined\<close>. Finite numbers are taken as reals (no rounding, no
  overflow, no signed zero).
\<close>

datatype jsnum = Num real | PosInf | NegInf | NaN | Undefined

instantiation jsnum :: "{plus, minus}"
begin

fun plus_jsnum :: "jsnum \<Rightarrow> jsnum \<Rightarrow> jsnum" where
  "plus_jsnum (Num a) (Num b) = Num (a + b)"
| "plus_jsnum NaN _ = NaN"
| "plus_jsnum _ NaN = NaN"
| "plus_jsnum Undefined _ = NaN"
| "plus_jsnum _ Undefined = NaN"
| "plus_jsnum PosInf NegInf = NaN"
| "plus_jsnum NegInf PosInf = NaN"
| "plus_jsnum PosInf _ = PosInf"
| "plus_jsnum _ PosInf = PosInf"
| "plus_jsnum NegInf _ = NegInf"
| "plus_jsnum _ NegInf = NegInf"

fun minus_jsnum :: "jsnum \<Rightarrow> jsnum \<Rightarrow> jsnum" where
  "minus_jsnum (Num a) (Num b) = Num (a - b)"
| "minus_jsnum NaN _ = NaN"
| "minus_jsnum _ NaN = NaN"
| "minus_jsnum Undefined _ = NaN"
| "minus_jsnum _ Undefined = NaN"
| "minus_jsnum PosInf PosInf = NaN"
| "minus_jsnum NegInf NegInf = NaN"
| "minus_jsnum PosInf _ = PosInf"
| "minus_jsnum NegInf _ = NegInf"
| "minus_jsnum _ PosInf = NegInf"
| "minus_jsnum _ NegInf = PosInf"

instance ..

end

text \<open>\<open>Math.min\<close> and \<open>Math.max\<close> of two arguments: \<open>NaN\<close> as soon as one is no number.\<close>

fun Math_min :: "jsnum \<Rightarrow> jsnum \<Rightarrow> jsnum" where
  "Math_min (Num a) (Num b) = Num (min a b)"
| "Math_min NaN _ = NaN"
| "Math_min _ NaN = NaN"
| "Math_min Undefined _ = NaN"
| "Math_min _ Undefined = NaN"
| "Math_min NegInf _ = NegInf"
| "Math_min _ NegInf = NegInf"
| "Math_min PosInf b = b"
| "Math_min a PosInf = a"

fun Math_max :: "jsnum \<Rightarrow> jsnum \<Rightarrow> jsnum" where
  "Math_max (Num a) (Num b) = Num (max a b)"
| "Math_max NaN _ = NaN"
| "Math_max _ NaN = NaN"
| "Math_max Undefined _ = NaN"
| "Math_max _ Undefined = NaN"
| "Math_max PosInf _ = PosInf"
| "Math_max _ PosInf = PosInf"
| "Math_max NegInf b = b"
| "Math_max a NegInf = a"

section \<open>The path interpreter (executeSVGStateMachine in SVGBuilder.js)\<close>

type_synonym JPoint = "jsnum \<times> jsnum"

text \<open>An \<open>SVGCommand\<close>: \<open>{name, args}\<close>.\<close>

record SVGCommand =
  name :: string
  args :: "jsnum list"

text \<open>
  The objects pushed onto \<open>geometry\<close>, by their \<open>kind\<close>. \<open>p1\<close> is the value of
  \<open>brushTip\<close> at that moment and can be \<open>null\<close> (\<open>None\<close>). The arc object has the
  properties \<open>absoluteStart, rX, rY, angle, largeArcFlag, sweepFlag, absoluteEnd\<close> and
  no \<open>p1\<close>.
\<close>

datatype SupportedGeometryData =
    Line "JPoint option" JPoint
  | CubicBezier "JPoint option" JPoint JPoint JPoint
  | QuadraticBezier "JPoint option" JPoint JPoint
  | EllipseArc JPoint jsnum jsnum jsnum jsnum jsnum JPoint

text \<open>The property \<open>p1\<close> of a geometry object, \<open>None\<close> when it is \<open>null\<close> or missing.\<close>

fun p1 :: "SupportedGeometryData \<Rightarrow> JPoint option" where
  "p1 (Line s _) = s"
| "p1 (CubicBezier s _ _ _) = s"
| "p1 (QuadraticBezier s _ _) = s"
| "p1 (EllipseArc _ _ _ _ _ _ _) = None"

text \<open>The two variables the closures of \<open>executeSVGStateMachine\<close> share.\<close>

record machine =
  geometry :: "SupportedGeometryData list"
  brushTip :: "JPoint option"

text \<open>\<open>const [a, b, ...] = command.args\<close>: a position past the end reads \<open>undefined\<close>.\<close>

definition argAt :: "jsnum list \<Rightarrow> nat \<Rightarrow> jsnum" where
  "argAt as k = (if k < length as then as ! k else Undefined)"

text \<open>\<open>String.prototype.toUpperCase\<close> on ASCII text.\<close>

definition toUpperChar :: "char \<Rightarrow> char" where
  "toUpperChar c =
     (case map_of (zip ''abcdefghijklmnopqrstuvwxyz'' ''ABCDEFGHIJKLMNOPQRSTUVWXYZ'') c of
        Some u \<Rightarrow> u
      | None \<Rightarrow> c)"

definition toUpperCase :: "string \<Rightarrow> string" where
  "toUpperCase s = map toUpperChar s"

definition fromBrushTip :: "JPoint option \<Rightarrow> JPoint \<Rightarrow> error + JPoint" where
  "fromBrushTip tip delta =
     (case tip of
        None \<Rightarrow> Inl BrushTipNotSet
      | Some b \<Rightarrow> Inr (sum_points b delta))"

definition shiftPointIfNeeded :: "JPoint option \<Rightarrow> string \<Rightarrow> JPoint \<Rightarrow> error + JPoint" where
  "shiftPointIfNeeded tip commandName v =
     (if toUpperCase commandName = commandName then Inr v else fromBrushTip tip v)"

text \<open>Sequencing of steps that may throw.\<close>

definition andThen :: "error + 'a \<Rightarrow> ('a \<Rightarrow> error + 'b) \<Rightarrow> error + 'b" where
  "andThen r f = (case r of Inl e \<Rightarrow> Inl e | Inr v \<Rightarrow> f v)"

text \<open>
  \<open>processCommand\<close>, one arm of the \<open>switch\<close> per pair of letters, in the order of
  the source. \<open>brushTip[k]\<close> in the \<open>H\<close> and \<open>V\<close> arms is read before
  \<open>shiftPointIfNeeded\<close> is called and throws a TypeError when \<open>brushTip\<close> is
  \<open>null\<close>. The arc arm calls no \<open>setBrushTip\<close>.
\<close>

definition processCommand :: "machine \<Rightarrow> SVGCommand \<Rightarrow> error + machine" where
  "processCommand st command =
     (let n = name command; as = args command; tip = brushTip st in
      if n = ''M'' \<or> n = ''m'' then
        andThen (shiftPointIfNeeded tip n (argAt as 0, argAt as 1)) (\<lambda>point.
          Inr (st\<lparr>brushTip := Some point\<rparr>))
      else if n = ''L'' \<or> n = ''l'' then
        andThen (shiftPointIfNeeded tip n (argAt as 0, argAt as 1)) (\<lambda>point.
          Inr (st\<lparr>geometry := geometry st @ [Line tip point], brushTip := Some point\<rparr>))
      else if n = ''H'' \<or> n = ''h'' then
        (case tip of
           None \<Rightarrow> Inl NullDereference
         | Some b \<Rightarrow>
             andThen (shiftPointIfNeeded tip n (argAt as 0, snd b)) (\<lambda>point.
               Inr (st\<lparr>geometry := geometry st @ [Line tip point], brushTip := Some point\<rparr>)))
      else if n = ''V'' \<or> n = ''v'' then
        (case tip of
           None \<Rightarrow> Inl NullDereference
         | Some b \<Rightarrow>
             andThen (shiftPointIfNeeded tip n (fst b, argAt as 0)) (\<lambda>point.
               Inr (st\<lparr>geometry := geometry st @ [Line tip point], brushTip := Some point\<rparr>)))
      else if n = ''C'' \<or> n = ''c'' then
        andThen (shiftPointIfNeeded tip n (argAt as 0, argAt as 1)) (\<lambda>controlPoint1.
        andThen (shiftPointIfNeeded tip n (argAt as 2, argAt as 3)) (\<lambda>controlPoint2.
        andThen (shiftPointIfNeeded tip n (argAt as 4, argAt as 5)) (\<lambda>endPoint.
          Inr (st\<lparr>geometry := geometry st @ [CubicBezier tip controlPoint1 controlPoint2 endPoint],
                  brushTip := Some endPoint\<rparr>))))
      else if n = ''Q'' \<or> n = ''q'' then
        andThen (shiftPointIfNeeded tip n (argAt as 0, argAt as 1)) (\<lambda>controlPoint.
        andThen (shiftPointIfNeeded tip n (argAt as 2, argAt as 3)) (\<lambda>endPoint.
          Inr (st\<lparr>geometry := geometry st @ [QuadraticBezier tip controlPoint endPoint],
                  brushTip := Some endPoint\<rparr>)))
      else if n = ''A'' \<or> n = ''a'' then
        andThen (shiftPointIfNeeded tip n (Num 0, Num 0)) (\<lambda>absoluteStart.
        andThen (shiftPointIfNeeded tip n (argAt as 5, argAt as 6)) (\<lambda>absoluteEnd.
          Inr (st\<lparr>geometry := geometry st @
                    [EllipseArc absoluteStart (argAt as 0) (argAt as 1) (argAt as 2)
                       (argAt as 3) (argAt as 4) absoluteEnd]\<rparr>)))
      else if n = ''Z'' \<or> n = ''z'' then
        (case geometry st of
           [] \<Rightarrow> Inr st
         | g # _ \<Rightarrow>
             (case p1 g of
                None \<Rightarrow> Inr st
              | Some start \<Rightarrow> Inr (st\<lparr>geometry := geometry st @ [Line tip start]\<rparr>)))
      else Inl (UnsupportedSVGCommand n))"

text \<open>\<open>for (const command of svgCommands) processCommand(command)\<close>.\<close>

fun processCommands :: "machine \<Rightarrow> SVGCommand list \<Rightarrow> error + machine" where
  "processCommands st [] = Inr st"
| "processCommands st (c # cs) = andThen (processCommand st c) (\<lambda>st'. processCommands st' cs)"

definition executeSVGStateMachine :: "SVGCommand list \<Rightarrow> error + SupportedGeometryData list" where
  "executeSVGStateMachine svgCommands =
     andThen (processCommands \<lparr>geometry = [], brushTip = None\<rparr> svgCommands)
       (\<lambda>st. Inr (geometry st))"

text \<open>Short forms for writing commands and points in examples.\<close>

definition cmd :: "string \<Rightarrow> real list \<Rightarrow> SVGCommand" where
  "cmd n as = \<lparr>name = n, args = map Num as\<rparr>"

definition pt :: "real \<Rightarrow> real \<Rightarrow> JPoint" where
  "pt a b = (Num a, Num b)"

section \<open>Bounding boxes (combineBoundingBoxes in SVGBuilder.js)\<close>

text \<open>A box object \<open>{x, y, width, height}\<close>.\<close>

record BoundingBox =
  box_x :: jsnum
  box_y :: jsnum
  box_width :: jsnum
  box_height :: jsnum

text \<open>
  What one argument of \<open>combineBoundingBoxes(...boxes)\<close> can be: \<open>null\<close>, a box object,
  or an array whose entries are box objects or \<open>null\<close>.
\<close>

datatype jsvalue = Null | Box BoundingBox | Array "BoundingBox option list"

definition entry :: "BoundingBox option \<Rightarrow> jsvalue" where
  "entry e = (case e of None \<Rightarrow> Null | Some b \<Rightarrow> Box b)"

text \<open>\<open>if (item)\<close>: every object, an array too, is truthy; \<open>null\<close> is not.\<close>

fun truthy :: "jsvalue \<Rightarrow> bool" where
  "truthy Null = False"
| "truthy (Box _) = True"
| "truthy (Array _) = True"

text \<open>\<open>item.x\<close> and the like: an array has no such property and reads \<open>undefined\<close>.\<close>

fun getProp :: "(BoundingBox \<Rightarrow> jsnum) \<Rightarrow> jsvalue \<Rightarrow> jsnum" where
  "getProp fld (Box b) = fld b"
| "getProp fld _ = Undefined"

text \<open>The four running variables of the loop, and one pass of its body.\<close>

record extent =
  minX :: jsnum
  minY :: jsnum
  maxX :: jsnum
  maxY :: jsnum

definition absorb :: "extent \<Rightarrow> jsvalue \<Rightarrow> extent" where
  "absorb e item =
     (if truthy item then
        \<lparr>minX = Math_min (minX e) (getProp box_x item),
         minY = Math_min (minY e) (getProp box_y item),
         maxX = Math_max (maxX e) (getProp box_x item + getProp box_width item),
         maxY = Math_max (maxY e) (getProp box_y item + getProp box_height item)\<rparr>
      else e)"

definition combineBoundingBoxes :: "jsvalue list \<Rightarrow> BoundingBox option" where
  "combineBoundingBoxes boxes =
     (if length boxes = 0 then None
      else
        let items = (case boxes ! 0 of Array es \<Rightarrow> map entry es | _ \<Rightarrow> boxes);
            e = foldl absorb \<lparr>minX = PosInf, minY = PosInf, maxX = NegInf, maxY = NegInf\<rparr> items
        in Some \<lparr>box_x = minX e, box_y = minY e,
                 box_width = maxX e - minX e, box_height = maxY e - minY e\<rparr>)"

text \<open>
  The call \<open>combineBoundingBoxes(a, b)\<close> with two arguments that are each a box or
  \<open>null\<close>, as \<open>getContentBoundingBox\<close> makes it.
\<close>

definition combine :: "BoundingBox option \<Rightarrow> BoundingBox option \<Rightarrow> BoundingBox option" where
  "combine a b = combineBoundingBoxes [entry a, entry b]"

text \<open>A box with finite fields, for examples.\<close>

definition box :: "real \<Rightarrow> real \<Rightarrow> real \<Rightarrow> real \<Rightarrow> BoundingBox" where
  "box a b w h = \<lparr>box_x = Num a, box_y = Num b, box_width = Num w, box_height = Num h\<rparr>"

text \<open>
  Finite boxes as quadruples \<open>(x, y, width, height)\<close>, the present entries of a list,
  and the four edges of a box.
\<close>

fun present :: "'a option list \<Rightarrow> 'a list" where
  "present [] = []"
| "present (None # es) = present es"
| "present (Some e # es) = e # present es"

fun finiteBox :: "real \<times> real \<times> real \<times> real \<Rightarrow> BoundingBox" where
  "finiteBox (a, b, w, h) = box a b w h"

fun leftEdge :: "real \<times> real \<times> real \<times> real \<Rightarrow> real" where
  "leftEdge (a, b, w, h) = a"

fun topEdge :: "real \<times> real \<times> real \<times> real \<Rightarrow> real" where
  "topEdge (a, b, w, h) = b"

fun rightEdge :: "real \<times> real \<times> real \<times> real \<Rightarrow> real" where
  "rightEdge (a, b, w, h) = a + w"

fun bottomEdge :: "real \<times> real \<times> real \<times> real \<Rightarrow> real" where
  "bottomEdge (a, b, w, h) = b + h"

section \<open>Properties of the spline fits\<close>

lemma catmullRomStep_ends:
  "length (catmullRomStep points tension i) = 4
   \<and> hd (catmullRomStep points tension i) = points ! i
   \<and> last (catmullRomStep points tension i) = points ! (i + 1)"
  by (simp add: catmullRomStep_def Let_def)

text \<open>
  C1. For every point list of length \<open>n \<ge> 4\<close> and every tension, \<open>performCatmullRom\<close>
  returns exactly \<open>n - 1\<close> segments, each of four points (a cubic), and for each
  \<open>i\<close> in \<open>[0, n - 2]\<close> segment \<open>i\<close> starts at \<open>points[i]\<close> and ends at \<open>points[i + 1]\<close>.
\<close>

theorem performCatmullRom_interpolates:
  assumes "4 \<le> length points"
  shows "\<exists>segs. performCatmullRom points tension = Inr segs
           \<and> length segs = length points - 1
           \<and> (\<forall>i < length points - 1.
                 length (segs ! i) = 4
                 \<and> hd (segs ! i) = points ! i
                 \<and> last (segs ! i) = points ! (i + 1))"
  using assms by (auto simp add: performCatmullRom_def catmullRomStep_ends)

text \<open>
  The scenario of the specification: fitting \<open>[[0,0],[10,0],[10,10],[0,10]]\<close> at tension
  \<open>1.0\<close> yields three cubic segments running \<open>[0,0] \<rightarrow> [10,0]\<close>,
  \<open>[10,0] \<rightarrow> [10,10]\<close> and \<open>[10,10] \<rightarrow> [0,10]\<close>.
\<close>

theorem performCatmullRom_interpolates_witness:
  "4 \<le> length ([(0, 0), (10, 0), (10, 10), (0, 10)] :: Path)
   \<and> (\<exists>s0 s1 s2.
         performCatmullRom [(0, 0), (10, 0), (10, 10), (0, 10)] 1.0 = Inr [s0, s1, s2]
         \<and> length s0 = 4 \<and> hd s0 = (0, 0) \<and> last s0 = (10, 0)
         \<and> length s1 = 4 \<and> hd s1 = (10, 0) \<and> last s1 = (10, 10)
         \<and> length s2 = 4 \<and> hd s2 = (10, 10) \<and> last s2 = (0, 10))"
proof -
  let ?pts = "[(0, 0), (10, 0), (10, 10), (0, 10)] :: Path"
  have len: "4 \<le> length ?pts" by simp
  from performCatmullRom_interpolates [OF len, of "1.0"]
  obtain segs where run: "performCatmullRom ?pts 1.0 = Inr segs"
    and n: "length segs = 3"
    and ends: "\<forall>i<3. length (segs ! i) = 4 \<and> hd (segs ! i) = ?pts ! i
                  \<and> last (segs ! i) = ?pts ! (i + 1)"
    by auto
  from n obtain s0 s1 s2 where segs: "segs = [s0, s1, s2]"
    by (auto simp add: length_Suc_conv numeral_3_eq_3)
  from ends have "length (segs ! 0) = 4 \<and> hd (segs ! 0) = ?pts ! 0 \<and> last (segs ! 0) = ?pts ! 1"
    and "length (segs ! 1) = 4 \<and> hd (segs ! 1) = ?pts ! 1 \<and> last (segs ! 1) = ?pts ! 2"
    and "length (segs ! 2) = 4 \<and> hd (segs ! 2) = ?pts ! 2 \<and> last (segs ! 2) = ?pts ! 3"
    by simp_all
  with run segs len show ?thesis by simp
qed

text \<open>The same run, with the control points the code computes.\<close>

lemma performCatmullRom_square:
  "performCatmullRom [(0, 0), (10, 0), (10, 10), (0, 10)] 1.0 =
     Inr [[(0, 0), (5 / 3, 0), (25 / 3, - (5 / 3)), (10, 0)],
          [(10, 0), (35 / 3, 5 / 3), (35 / 3, 25 / 3), (10, 10)],
          [(10, 10), (25 / 3, 35 / 3), (5 / 3, 10), (0, 10)]]"
  by (simp add: performCatmullRom_def catmullRomStep_def Let_def upt_rec)

text \<open>
  C9. A non-empty point list shorter than the threshold of the algorithm (four points for
  Catmull-Rom, five for the Canonical Spline) is returned unchanged as the only element
  of the segment list, whatever the tension.
\<close>

theorem short_input_returned_verbatim:
  "(points \<noteq> [] \<and> length points < 4 \<longrightarrow> performCatmullRom points tension = Inr [points])
   \<and> (points \<noteq> [] \<and> length points < 5 \<longrightarrow> performCanonicalSpline points tension = Inr [points])"
  by (simp add: performCatmullRom_def performCanonicalSpline_def)

theorem short_input_returned_verbatim_witness:
  "(([(1, 2), (3, 4), (5, 6)] :: Path) \<noteq> []
      \<and> length ([(1, 2), (3, 4), (5, 6)] :: Path) < 4)
   \<and> performCatmullRom [(1, 2), (3, 4), (5, 6)] 0.5 = Inr [[(1, 2), (3, 4), (5, 6)]]
   \<and> (([(1, 2), (3, 4), (5, 6), (7, 8)] :: Path) \<noteq> []
        \<and> length ([(1, 2), (3, 4), (5, 6), (7, 8)] :: Path) < 5)
   \<and> performCanonicalSpline [(1, 2), (3, 4), (5, 6), (7, 8)] 0.5
       = Inr [[(1, 2), (3, 4), (5, 6), (7, 8)]]"
  using short_input_returned_verbatim [of "[(1, 2), (3, 4), (5, 6)]" "0.5"]
        short_input_returned_verbatim [of "[(1, 2), (3, 4), (5, 6), (7, 8)]" "0.5"]
  by simp

lemma canonicalSplineStep_ends:
  "hd (canonicalSplineStep points tension i) = points ! i
   \<and> last (canonicalSplineStep points tension i) = points ! (i + 1)"
  by (simp add: canonicalSplineStep_def Let_def)

lemma canonicalSplineStep_vector:
  "canonicalSplineStep points tension i =
     [points ! i,
      sum_points (points ! i) (scaledBy (difference (points ! (i + 1)) (points ! (i - 1))) (tension / 6)),
      difference (points ! (i + 1)) (scaledBy (difference (points ! (i + 2)) (points ! i)) (tension / 6)),
      points ! (i + 1)]"
  by (simp add: canonicalSplineStep_def Let_def sum_points_def difference_def scaledBy_def)

text \<open>
  C8. For every point list of length \<open>n \<ge> 5\<close> and every tension, \<open>performCanonicalSpline\<close>
  runs \<open>i\<close> over \<open>[1, n - 3]\<close> and returns exactly \<open>n - 3\<close> segments; the segment of step
  \<open>i\<close> is \<open>[p1, cp1, cp2, p2]\<close> with \<open>p0 = points[i-1]\<close>, \<open>p1 = points[i]\<close>,
  \<open>p2 = points[i+1]\<close>, \<open>p3 = points[i+2]\<close>, \<open>cp1 = p1 + tension (p2 - p0) / 6\<close> and
  \<open>cp2 = p2 - tension (p3 - p1) / 6\<close>. The end points of the segments are therefore the
  input points at positions \<open>1, ..., n - 2\<close>: the first and the last input point are the
  end point of no segment (when the input points are pairwise different, no segment end
  even has their coordinates).
\<close>

theorem performCanonicalSpline_segments:
  assumes "5 \<le> length points"
  shows "\<exists>segs. performCanonicalSpline points tension = Inr segs
           \<and> length segs = length points - 3
           \<and> (\<forall>i. 1 \<le> i \<and> i \<le> length points - 3 \<longrightarrow>
                 segs ! (i - 1) =
                   [points ! i,
                    sum_points (points ! i)
                      (scaledBy (difference (points ! (i + 1)) (points ! (i - 1))) (tension / 6)),
                    difference (points ! (i + 1))
                      (scaledBy (difference (points ! (i + 2)) (points ! i)) (tension / 6)),
                    points ! (i + 1)])
           \<and> (\<forall>s \<in> set segs. \<exists>j. 1 \<le> j \<and> j + 1 \<le> length points - 2
                 \<and> hd s = points ! j \<and> last s = points ! (j + 1))
           \<and> (distinct points \<longrightarrow>
                 (\<forall>s \<in> set segs. hd s \<noteq> points ! 0 \<and> last s \<noteq> points ! 0
                    \<and> hd s \<noteq> points ! (length points - 1)
                    \<and> last s \<noteq> points ! (length points - 1)))"
proof -
  let ?n = "length points"
  let ?segs = "map (canonicalSplineStep points tension) [1 ..< ?n - 2]"
  have run: "performCanonicalSpline points tension = Inr ?segs"
    using assms by (auto simp add: performCanonicalSpline_def)
  have len: "length ?segs = ?n - 3"
    using assms by simp
  have formula: "?segs ! (i - 1) =
                   [points ! i,
                    sum_points (points ! i)
                      (scaledBy (difference (points ! (i + 1)) (points ! (i - 1))) (tension / 6)),
                    difference (points ! (i + 1))
                      (scaledBy (difference (points ! (i + 2)) (points ! i)) (tension / 6)),
                    points ! (i + 1)]"
    if "1 \<le> i \<and> i \<le> ?n - 3" for i
  proof -
    from that assms have "i - 1 < length [1 ..< ?n - 2]" by (simp; linarith)
    then have "?segs ! (i - 1) = canonicalSplineStep points tension ([1 ..< ?n - 2] ! (i - 1))"
      by (rule nth_map)
    also have "[1 ..< ?n - 2] ! (i - 1) = i"
    proof -
      from that assms have "1 + (i - 1) < ?n - 2" by linarith
      then have "[1 ..< ?n - 2] ! (i - 1) = 1 + (i - 1)" by (rule nth_upt)
      with that show ?thesis by simp
    qed
    finally have step: "?segs ! (i - 1) = canonicalSplineStep points tension i" .
    show ?thesis by (rule trans [OF step canonicalSplineStep_vector])
  qed
  have ends: "\<exists>j. 1 \<le> j \<and> j + 1 \<le> ?n - 2 \<and> hd s = points ! j \<and> last s = points ! (j + 1)"
    if "s \<in> set ?segs" for s
  proof -
    from that obtain j where j: "1 \<le> j" "j < ?n - 2" and s: "s = canonicalSplineStep points tension j"
      by auto
    from j s show ?thesis
      by (intro exI [of _ j]) (simp add: canonicalSplineStep_ends)
  qed
  have apart: "hd s \<noteq> points ! 0 \<and> last s \<noteq> points ! 0
                 \<and> hd s \<noteq> points ! (?n - 1) \<and> last s \<noteq> points ! (?n - 1)"
    if d: "distinct points" and "s \<in> set ?segs" for s
  proof -
    from ends [OF that(2)] obtain j where j: "1 \<le> j" "j + 1 \<le> ?n - 2"
      and h: "hd s = points ! j" and l: "last s = points ! (j + 1)" by blast
    from j assms have b: "j < ?n" "j + 1 < ?n" "0 < ?n" "?n - 1 < ?n"
      and ne: "j \<noteq> 0" "j + 1 \<noteq> 0" "j \<noteq> ?n - 1" "j + 1 \<noteq> ?n - 1"
      by linarith+
    have "points ! j \<noteq> points ! 0" "points ! (j + 1) \<noteq> points ! 0"
      "points ! j \<noteq> points ! (?n - 1)" "points ! (j + 1) \<noteq> points ! (?n - 1)"
      using b ne by (simp_all add: nth_eq_iff_index_eq [OF d])
    with h l show ?thesis by simp
  qed
  from run len formula ends apart show ?thesis by blast
qed

text \<open>
  Five pairwise different points at tension \<open>1\<close>: two segments, from the second point to
  the third and from the third to the fourth; \<open>(0, 0)\<close> and \<open>(24, 0)\<close> end no segment.
\<close>

theorem performCanonicalSpline_segments_witness:
  "5 \<le> length ([(0, 0), (6, 0), (12, 6), (18, 6), (24, 0)] :: Path)
   \<and> distinct ([(0, 0), (6, 0), (12, 6), (18, 6), (24, 0)] :: Path)
   \<and> performCanonicalSpline [(0, 0), (6, 0), (12, 6), (18, 6), (24, 0)] 1 =
         Inr [[(6, 0), (8, 1), (10, 5), (12, 6)],
              [(12, 6), (14, 7), (16, 7), (18, 6)]]"
proof -
  let ?pts = "[(0, 0), (6, 0), (12, 6), (18, 6), (24, 0)] :: Path"
  have len: "5 \<le> length ?pts" by simp
  have d: "distinct ?pts" by simp
  from performCanonicalSpline_segments [OF len, of 1]
  obtain segs where run: "performCanonicalSpline ?pts 1 = Inr segs"
    and n: "length segs = 2"
    and formula: "\<forall>i. 1 \<le> i \<and> i \<le> 2 \<longrightarrow>
       segs ! (i - 1) =
         [?pts ! i,
          sum_points (?pts ! i)
            (scaledBy (difference (?pts ! (i + 1)) (?pts ! (i - 1))) (1 / 6)),
          difference (?pts ! (i + 1))
            (scaledBy (difference (?pts ! (i + 2)) (?pts ! i)) (1 / 6)),
          ?pts ! (i + 1)]"
    by auto
  from n obtain s1 s2 where segs: "segs = [s1, s2]"
    by (auto simp add: length_Suc_conv numeral_2_eq_2)
  from formula [rule_format, of 1] segs
  have s1: "s1 = [(6, 0), (8, 1), (10, 5), (12, 6)]"
    by (simp add: sum_points_def difference_def scaledBy_def)
  from formula [rule_format, of 2] segs
  have s2: "s2 = [(12, 6), (14, 7), (16, 7), (18, 6)]"
    by (simp add: sum_points_def difference_def scaledBy_def)
  from run segs s1 s2 len d show ?thesis by simp
qed

section \<open>Properties of the serialisation\<close>

lemma mapE_all_Inr:
  assumes "\<forall>x \<in> set xs. \<exists>y. f x = Inr y"
  shows "\<exists>ys. mapE f xs = Inr ys \<and> length ys = length xs
            \<and> (\<forall>k < length xs. f (xs ! k) = Inr (ys ! k))"
  using assms
proof (induction xs)
  case Nil
  then show ?case by simp
next
  case (Cons x xs)
  from Cons.prems obtain y where y: "f x = Inr y" by auto
  from Cons obtain ys where ys: "mapE f xs = Inr ys" "length ys = length xs"
    "\<forall>k < length xs. f (xs ! k) = Inr (ys ! k)" by auto
  have "\<forall>k < length (x # xs). f ((x # xs) ! k) = Inr ((y # ys) ! k)"
  proof (intro allI impI)
    fix k assume "k < length (x # xs)"
    with y ys(3) show "f ((x # xs) ! k) = Inr ((y # ys) ! k)"
      by (cases k) simp_all
  qed
  with y ys show ?case by simp
qed

lemma join_filter_empty:
  assumes "\<forall>t \<in> set ts. filter P t = []" and "filter P sep = []"
  shows "filter P (join sep ts) = []"
  using assms by (induction sep ts rule: join.induct) simp_all

lemma token_of_simple_path:
  assumes "length c \<in> {2, 3, 4}" and "\<forall>v. filter isMoveTo (fmt v) = []"
  shows "\<exists>t. buildSimplePathDString fmt c False = Inr t \<and> filter isMoveTo t = []"
  using assms by (auto simp add: buildSimplePathDString_def isMoveTo_def)

lemma performCatmullRom_simple_paths:
  assumes "2 \<le> length points"
  shows "\<exists>segs. performCatmullRom points tension = Inr segs \<and> segs \<noteq> []
            \<and> hd (hd segs) = points ! 0
            \<and> (\<forall>c \<in> set segs. length c \<in> {2, 3, 4})"
proof (cases "length points < 4")
  case True
  with assms have "length points \<in> {2, 3}" by auto
  with True assms show ?thesis
    by (auto simp add: performCatmullRom_def hd_conv_nth)
next
  case False
  then have n: "0 < length points - 1" by simp
  from False have "performCatmullRom points tension
      = Inr (map (catmullRomStep points tension) [0 ..< length points - 1])"
    by (auto simp add: performCatmullRom_def)
  moreover from n have "hd (map (catmullRomStep points tension) [0 ..< length points - 1])
      = catmullRomStep points tension 0"
    by (simp add: hd_map upt_conv_Cons)
  ultimately show ?thesis using n
    by (auto simp add: catmullRomStep_ends)
qed

text \<open>
  The shape of the string \<open>buildSplineDString\<close> returns for a list of at least two
  points (so that every segment of the decomposition is a line, a quadratic or a cubic):
  the move-to \<open>M x0 y0\<close> to the first point, which is the first point of the first
  segment, and then, appended to it without a separator, the tokens of the segments in
  order, joined among themselves by single spaces. No token holds a move-to, so the
  string has exactly one move-to letter, the leading \<open>M\<close>. The number formatting is
  assumed never to print the letters \<open>M\<close> or \<open>m\<close>.
\<close>

lemma buildSplineDString_single_move:
  assumes "2 \<le> length points"
    and "\<forall>v. filter isMoveTo (fmt v) = []"
  shows "\<exists>segs tokens out.
           performCatmullRom points tension = Inr segs
           \<and> hd (hd segs) = points ! 0
           \<and> length tokens = length segs
           \<and> (\<forall>k < length segs. buildSimplePathDString fmt (segs ! k) False = Inr (tokens ! k))
           \<and> (\<forall>t \<in> set tokens. filter isMoveTo t = [])
           \<and> buildSplineDString fmt points tension = Inr out
           \<and> out = ''M '' @ fmt (fst (points ! 0)) @ '' '' @ fmt (snd (points ! 0))
                    @ join '' '' tokens
           \<and> filter isMoveTo out = ''M''"
proof -
  from performCatmullRom_simple_paths [OF assms(1)]
  obtain segs where segs: "performCatmullRom points tension = Inr segs"
    "hd (hd segs) = points ! 0" "\<forall>c \<in> set segs. length c \<in> {2, 3, 4}"
    by blast
  let ?f = "\<lambda>c. buildSimplePathDString fmt c False"
  from segs(3) assms(2) have ok: "\<forall>c \<in> set segs. \<exists>t. ?f c = Inr t"
    using token_of_simple_path by blast
  from mapE_all_Inr [OF ok]
  obtain tokens where tokens: "mapE ?f segs = Inr tokens" "length tokens = length segs"
    "\<forall>k < length segs. ?f (segs ! k) = Inr (tokens ! k)"
    by blast
  have clean: "\<forall>t \<in> set tokens. filter isMoveTo t = []"
  proof
    fix t assume "t \<in> set tokens"
    then obtain k where k: "k < length tokens" "t = tokens ! k"
      by (auto simp add: in_set_conv_nth)
    with tokens have t: "?f (segs ! k) = Inr t" by simp
    from k tokens(2) segs(3) have "length (segs ! k) \<in> {2, 3, 4}" by simp
    from token_of_simple_path [OF this assms(2)] t show "filter isMoveTo t = []" by simp
  qed
  let ?out = "''M '' @ fmt (fst (points ! 0)) @ '' '' @ fmt (snd (points ! 0)) @ join '' '' tokens"
  have run: "buildSplineDString fmt points tension = Inr ?out"
    by (simp add: buildSplineDString_def segs(1) tokens(1))
  have "filter isMoveTo (join '' '' tokens) = []"
    by (rule join_filter_empty [OF clean]) (simp add: isMoveTo_def)
  with assms(2) have "filter isMoveTo ?out = ''M''"
    by (simp add: isMoveTo_def)
  with segs tokens clean run show ?thesis by blast
qed


text \<open>
  Four points at tension \<open>1\<close>, printed with \<open>showInteger\<close>: one \<open>M\<close>, three
  \<open>C\<close> tokens.
\<close>

lemma digit_no_move:
  assumes "n < 10"
  shows "\<not> isMoveTo (''0123456789'' ! n)"
proof -
  from assms have "n \<in> {0, 1, 2, 3, 4, 5, 6, 7, 8, 9}" by auto
  then show ?thesis by (auto simp add: isMoveTo_def)
qed

lemma showNat_no_move: "filter isMoveTo (showNat n) = []"
proof (induction n rule: showNat.induct)
  case (1 n)
  show ?case
  proof (cases "n < 10")
    case True
    with digit_no_move [of n] show ?thesis by (simp add: showNat.simps [of n])
  next
    case False
    have "n mod 10 < 10" by simp
    from digit_no_move [OF this] 1 [OF False] False show ?thesis
      by (simp add: showNat.simps [of n])
  qed
qed

lemma showInteger_no_move: "filter isMoveTo (showInteger v) = []"
  by (simp add: showInteger_def showNat_no_move isMoveTo_def)

lemma buildSplineDString_example:
  "buildSplineDString showInteger [(0, 0), (6, 0), (12, 6), (18, 6)] 1 =
     Inr ''M 0 0C 1 0 4 -1 6 0 C 8 1 10 5 12 6 C 14 7 17 6 18 6''"
  by (simp add: buildSplineDString_def performCatmullRom_def catmullRomStep_def Let_def upt_rec
        buildSimplePathDString_def showInteger_def showNat.simps)

lemma buildSplineDString_single_move_instance:
  "2 \<le> length ([(0, 0), (6, 0), (12, 6), (18, 6)] :: Path)
   \<and> (\<forall>v. filter isMoveTo (showInteger v) = [])
   \<and> buildSplineDString showInteger [(0, 0), (6, 0), (12, 6), (18, 6)] 1 =
         Inr ''M 0 0C 1 0 4 -1 6 0 C 8 1 10 5 12 6 C 14 7 17 6 18 6''
   \<and> filter isMoveTo ''M 0 0C 1 0 4 -1 6 0 C 8 1 10 5 12 6 C 14 7 17 6 18 6'' = ''M''"
proof -
  let ?pts = "[(0, 0), (6, 0), (12, 6), (18, 6)] :: Path"
  have len: "2 \<le> length ?pts" by simp
  have fmt: "\<forall>v. filter isMoveTo (showInteger v) = []"
    by (simp add: showInteger_no_move)
  from buildSplineDString_single_move [OF len fmt, of 1]
  obtain out where "buildSplineDString showInteger ?pts 1 = Inr out"
    and "filter isMoveTo out = ''M''"
    by blast
  with buildSplineDString_example len fmt show ?thesis by simp
qed

text \<open>Inputs below two points throw.\<close>

lemma buildSplineDString_too_short:
  "buildSplineDString fmt [] tension = Inl AtLeastOnePointRequired"
  "buildSplineDString fmt [p] tension = Inl PointCountNot234"
  by (simp_all add: buildSplineDString_def performCatmullRom_def buildSimplePathDString_def)

lemma buildSplineDString_two_points:
  "buildSplineDString fmt [(0, 0), (10, 0)] tension =
     Inr (''M '' @ fmt 0 @ '' '' @ fmt 0 @ ''L '' @ fmt 10 @ '' '' @ fmt 0)"
  by (simp add: buildSplineDString_def performCatmullRom_def buildSimplePathDString_def)

text \<open>
  C2. The claim: the string is one move-to to the first point followed by the tokens of
  the segments, the clauses separated by single spaces. The code writes the move-to and
  appends the joined tokens to it with nothing in between: for the two points
  \<open>[0,0], [10,0]\<close> it returns \<open>M 0 0L 10 0\<close>, not \<open>M 0 0 L 10 0\<close>, and for four
  points \<open>M 0 0C 1 0 4 -1 6 0 C 8 1 10 5 12 6 C 14 7 17 6 18 6\<close>. The single spaces
  stand only between one token and the next.
\<close>

theorem buildSplineDString_move_glued:
  "buildSplineDString fmt [(0, 0), (10, 0)] tension =
     Inr (''M '' @ fmt 0 @ '' '' @ fmt 0 @ ''L '' @ fmt 10 @ '' '' @ fmt 0)
   \<and> buildSplineDString showInteger [(0, 0), (10, 0)] 1 = Inr ''M 0 0L 10 0''
   \<and> buildSplineDString showInteger [(0, 0), (10, 0)] 1 \<noteq> Inr ''M 0 0 L 10 0''
   \<and> buildSplineDString showInteger [(0, 0), (6, 0), (12, 6), (18, 6)] 1 =
         Inr ''M 0 0C 1 0 4 -1 6 0 C 8 1 10 5 12 6 C 14 7 17 6 18 6''"
  by (simp add: buildSplineDString_two_points buildSplineDString_example
        showInteger_def showNat.simps)

text \<open>
  The earlier revision on the same input: one move-to for each of the three segments.
\<close>

lemma buildSplineDString_rev1_example:
  "buildSplineDString_rev1 showInteger [(0, 0), (6, 0), (12, 6), (18, 6)] ''quadratic'' 1 =
     Inr ''M 0 0 C 1 0 4 -1 6 0 M 6 0 C 8 1 10 5 12 6 M 12 6 C 14 7 17 6 18 6''"
  by (simp add: buildSplineDString_rev1_def performCatmullRom_def catmullRomStep_def Let_def
        upt_rec buildSimplePathDString_rev1_def showInteger_def showNat.simps)

section \<open>Properties of the interpreter\<close>

lemmas run_simps =
  executeSVGStateMachine_def processCommand_def shiftPointIfNeeded_def fromBrushTip_def
  andThen_def argAt_def toUpperCase_def toUpperChar_def sum_points_def cmd_def pt_def Let_def

text \<open>
  What the arc arm does in general, with the cursor at \<open>b\<close>: it appends one arc whose
  radii, angle and flags are the arguments as given and leaves the cursor where it was.
  For \<open>a\<close> the start is \<open>b + [0, 0]\<close> and the end \<open>b + [x, y]\<close>; for \<open>A\<close> the start
  is \<open>[0, 0]\<close> and the end \<open>[x, y]\<close>.
\<close>

lemma arc_step:
  assumes "brushTip st = Some b" and "name c = ''A'' \<or> name c = ''a''"
  shows "processCommand st c =
           Inr (st\<lparr>geometry := geometry st @
                  [EllipseArc
                     (if name c = ''A'' then (Num 0, Num 0) else sum_points b (Num 0, Num 0))
                     (argAt (args c) 0) (argAt (args c) 1) (argAt (args c) 2)
                     (argAt (args c) 3) (argAt (args c) 4)
                     (if name c = ''A'' then (argAt (args c) 5, argAt (args c) 6)
                      else sum_points b (argAt (args c) 5, argAt (args c) 6))]\<rparr>)"
  using assms
  by (auto simp add: processCommand_def shiftPointIfNeeded_def fromBrushTip_def andThen_def
        toUpperCase_def toUpperChar_def Let_def)

text \<open>
  C3. The claim: with the cursor set, an \<open>A\<close> or \<open>a\<close> command emits an arc whose
  \<open>absoluteStart\<close> is the cursor, and the cursor then moves to the target. The code
  differs on both counts. With the cursor at \<open>(1, 2)\<close>, \<open>A 5 5 0 0 1 10 10\<close> emits an
  arc that starts at \<open>(0, 0)\<close>, and the cursor stays at \<open>(1, 2)\<close>: the line of a
  following \<open>L 20 20\<close> starts at \<open>(1, 2)\<close>, not at \<open>(10, 10)\<close>. Only the end point and
  the flags are as the claim says.
\<close>

theorem arc_start_and_cursor:
  "processCommand \<lparr>geometry = [], brushTip = Some (pt 1 2)\<rparr> (cmd ''A'' [5, 5, 0, 0, 1, 10, 10])
     = Inr \<lparr>geometry = [EllipseArc (pt 0 0) (Num 5) (Num 5) (Num 0) (Num 0) (Num 1) (pt 10 10)],
            brushTip = Some (pt 1 2)\<rparr>
   \<and> executeSVGStateMachine
         [cmd ''M'' [1, 2], cmd ''A'' [5, 5, 0, 0, 1, 10, 10], cmd ''L'' [20, 20]]
       = Inr [EllipseArc (pt 0 0) (Num 5) (Num 5) (Num 0) (Num 0) (Num 1) (pt 10 10),
              Line (Some (pt 1 2)) (pt 20 20)]"
  by (simp add: run_simps)

text \<open>
  A command processed while the cursor is still \<open>null\<close>: the relative forms that go
  through \<open>fromBrushTip\<close> throw "Brush tip not set"; \<open>H\<close>, \<open>h\<close>, \<open>V\<close> and \<open>v\<close> fail
  on reading a coordinate of \<open>null\<close>; the absolute forms \<open>L\<close>, \<open>C\<close>, \<open>Q\<close> and \<open>A\<close>
  throw nothing.
\<close>

lemma relative_without_cursor:
  assumes "brushTip st = None" and "name c \<in> {''m'', ''l'', ''c'', ''q'', ''a''}"
  shows "processCommand st c = Inl BrushTipNotSet"
  using assms
  by (auto simp add: processCommand_def shiftPointIfNeeded_def fromBrushTip_def andThen_def
        toUpperCase_def toUpperChar_def Let_def)

lemma horizontal_vertical_without_cursor:
  assumes "brushTip st = None" and "name c \<in> {''H'', ''h'', ''V'', ''v''}"
  shows "processCommand st c = Inl NullDereference"
  using assms by (auto simp add: processCommand_def Let_def)

lemma absolute_without_cursor:
  assumes "brushTip st = None" and "name c \<in> {''L'', ''C'', ''Q'', ''A''}"
  shows "\<exists>st'. processCommand st c = Inr st'"
  using assms
  by (auto simp add: processCommand_def shiftPointIfNeeded_def andThen_def
        toUpperCase_def toUpperChar_def Let_def)

text \<open>
  C4. The claim: a drawing command before any move-to fails with a cursor-not-set error,
  and \<open>L 5 5\<close> alone raises it. The code raises nothing on \<open>L 5 5\<close>: it returns one
  line whose start \<open>p1\<close> is \<open>null\<close>.
\<close>

theorem absolute_line_without_cursor:
  "executeSVGStateMachine [cmd ''L'' [5, 5]] = Inr [Line None (pt 5 5)]"
  by (simp add: run_simps)

text \<open>
  C5, as the claim states it: after \<open>M 0 0 M 5 5 L 10 10\<close> the point recorded by the
  first move-to is \<open>(0, 0)\<close>, so \<open>Z\<close> would append the line from \<open>(10, 10)\<close> to
  \<open>(0, 0)\<close>. The code closes to \<open>(5, 5)\<close>, the start of the first primitive.
\<close>

theorem close_path_counterexample:
  "executeSVGStateMachine
       [cmd ''M'' [0, 0], cmd ''M'' [5, 5], cmd ''L'' [10, 10], cmd ''Z'' []]
     = Inr [Line (Some (pt 5 5)) (pt 10 10), Line (Some (pt 10 10)) (pt 5 5)]
   \<and> executeSVGStateMachine
       [cmd ''M'' [0, 0], cmd ''M'' [5, 5], cmd ''L'' [10, 10], cmd ''Z'' []]
     \<noteq> Inr [Line (Some (pt 5 5)) (pt 10 10), Line (Some (pt 10 10)) (pt 0 0)]"
  by (simp add: run_simps)

text \<open>
  Outside the amended statement below: an arc object carries \<open>absoluteStart\<close> and no
  \<open>p1\<close>, so when the geometry begins with an arc the guard of the \<open>Z\<close> arm fails
  and the path is not closed, against the arm's comment "Close the path to the starting
  point".
\<close>

lemma close_path_after_arc:
  "executeSVGStateMachine [cmd ''M'' [0, 0], cmd ''a'' [5, 5, 0, 0, 1, 10, 10], cmd ''Z'' []]
     = Inr [EllipseArc (pt 0 0) (Num 5) (Num 5) (Num 0) (Num 0) (Num 1) (pt 10 10)]"
  by (simp add: run_simps)

text \<open>
  C5, amended. Processing \<open>Z\<close> or \<open>z\<close> when the first primitive emitted is a line or
  a Bezier curve with a start point \<open>p1\<close> appends the line from the cursor to that
  start point; processing it when no primitive has been emitted does nothing. The cursor
  is the same afterwards in both cases. Interpreting \<open>M 0 0 L 10 0 L 10 10 Z\<close> yields
  the three lines \<open>(0,0)-(10,0)\<close>, \<open>(10,0)-(10,10)\<close>, \<open>(10,10)-(0,0)\<close>.
\<close>

theorem close_path_step:
  "(name c = ''Z'' \<or> name c = ''z'' \<longrightarrow>
      (\<forall>g gs start. geometry st = g # gs \<and> p1 g = Some start \<longrightarrow>
         (\<exists>st'. processCommand st c = Inr st'
            \<and> st' = st\<lparr>geometry := geometry st @ [Line (brushTip st) start]\<rparr>
            \<and> brushTip st' = brushTip st))
      \<and> (geometry st = [] \<longrightarrow> processCommand st c = Inr st))
   \<and> executeSVGStateMachine
         [cmd ''M'' [0, 0], cmd ''L'' [10, 0], cmd ''L'' [10, 10], cmd ''Z'' []]
       = Inr [Line (Some (pt 0 0)) (pt 10 0), Line (Some (pt 10 0)) (pt 10 10),
              Line (Some (pt 10 10)) (pt 0 0)]"
proof -
  have closes: "processCommand st c
                  = Inr (st\<lparr>geometry := geometry st @ [Line (brushTip st) start]\<rparr>)"
    if "name c = ''Z'' \<or> name c = ''z''" and "geometry st = g # gs" and "p1 g = Some start"
    for g gs start
    using that by (auto simp add: processCommand_def Let_def)
  have idle: "processCommand st c = Inr st"
    if "name c = ''Z'' \<or> name c = ''z''" and "geometry st = []"
    using that by (auto simp add: processCommand_def Let_def)
  have scenario: "executeSVGStateMachine
         [cmd ''M'' [0, 0], cmd ''L'' [10, 0], cmd ''L'' [10, 10], cmd ''Z'' []]
       = Inr [Line (Some (pt 0 0)) (pt 10 0), Line (Some (pt 10 0)) (pt 10 10),
              Line (Some (pt 10 10)) (pt 0 0)]"
    by (simp add: run_simps)
  have general: "(\<forall>g gs start. geometry st = g # gs \<and> p1 g = Some start \<longrightarrow>
         (\<exists>st'. processCommand st c = Inr st'
            \<and> st' = st\<lparr>geometry := geometry st @ [Line (brushTip st) start]\<rparr>
            \<and> brushTip st' = brushTip st))
      \<and> (geometry st = [] \<longrightarrow> processCommand st c = Inr st)"
    if z: "name c = ''Z'' \<or> name c = ''z''"
  proof (intro conjI allI impI)
    fix g gs start
    assume "geometry st = g # gs \<and> p1 g = Some start"
    then have "processCommand st c
                 = Inr (st\<lparr>geometry := geometry st @ [Line (brushTip st) start]\<rparr>)"
      using closes [OF z] by blast
    then show "\<exists>st'. processCommand st c = Inr st'
            \<and> st' = st\<lparr>geometry := geometry st @ [Line (brushTip st) start]\<rparr>
            \<and> brushTip st' = brushTip st"
      by simp
  next
    assume "geometry st = []"
    then show "processCommand st c = Inr st" by (rule idle [OF z])
  qed
  from general scenario show ?thesis by blast
qed

text \<open>
  The close command at the end of \<open>M 0 0 L 10 0 L 10 10 Z\<close>, and a close command
  right after \<open>M 0 0\<close>, before any primitive.
\<close>

theorem close_path_step_witness:
  "name (cmd ''Z'' []) = ''Z''
   \<and> processCommand
         \<lparr>geometry = [Line (Some (pt 0 0)) (pt 10 0), Line (Some (pt 10 0)) (pt 10 10)],
          brushTip = Some (pt 10 10)\<rparr> (cmd ''Z'' [])
       = Inr \<lparr>geometry = [Line (Some (pt 0 0)) (pt 10 0), Line (Some (pt 10 0)) (pt 10 10),
                          Line (Some (pt 10 10)) (pt 0 0)],
              brushTip = Some (pt 10 10)\<rparr>
   \<and> processCommand \<lparr>geometry = [], brushTip = Some (pt 0 0)\<rparr> (cmd ''Z'' [])
       = Inr \<lparr>geometry = [], brushTip = Some (pt 0 0)\<rparr>"
proof -
  let ?lines = "\<lparr>geometry = [Line (Some (pt 0 0)) (pt 10 0), Line (Some (pt 10 0)) (pt 10 10)],
                 brushTip = Some (pt 10 10)\<rparr>"
  let ?fresh = "\<lparr>geometry = [], brushTip = Some (pt 0 0)\<rparr>"
  have z: "name (cmd ''Z'' []) = ''Z''" by (simp add: cmd_def)
  from close_path_step [of "cmd ''Z'' []" ?lines] z
  have "\<forall>g gs start. geometry ?lines = g # gs \<and> p1 g = Some start \<longrightarrow>
          (\<exists>st'. processCommand ?lines (cmd ''Z'' []) = Inr st'
             \<and> st' = ?lines\<lparr>geometry := geometry ?lines @ [Line (brushTip ?lines) start]\<rparr>
             \<and> brushTip st' = brushTip ?lines)"
    by blast
  from this [rule_format, of "Line (Some (pt 0 0)) (pt 10 0)"
               "[Line (Some (pt 10 0)) (pt 10 10)]" "pt 0 0"]
  have lines: "processCommand ?lines (cmd ''Z'' [])
          = Inr (?lines\<lparr>geometry := geometry ?lines @ [Line (brushTip ?lines) (pt 0 0)]\<rparr>)"
    by simp
  from close_path_step [of "cmd ''Z'' []" ?fresh] z
  have "geometry ?fresh = [] \<longrightarrow> processCommand ?fresh (cmd ''Z'' []) = Inr ?fresh"
    by blast
  then have fresh: "processCommand ?fresh (cmd ''Z'' []) = Inr ?fresh"
    by simp
  from lines fresh z show ?thesis by simp
qed

section \<open>Properties of the bounding boxes\<close>

lemmas combine_simps =
  combineBoundingBoxes_def absorb_def entry_def box_def Let_def

text \<open>
  The example of the specification, \<open>combine([{0,0,10,5}, null, {5,-5,10,10}])\<close>: the
  box found is \<open>{x: 0, y: -5, width: 15, height: 10}\<close>.
\<close>

lemma combine_example:
  "combineBoundingBoxes [Array [Some (box 0 0 10 5), None, Some (box 5 (- 5) 10 10)]]
     = Some (box 0 (- 5) 15 10)"
  by (simp add: combine_simps)

lemma combine_no_arguments: "combineBoundingBoxes [] = None"
  by (simp add: combineBoundingBoxes_def)

text \<open>
  Where at least one entry is present and the present boxes have finite fields, the
  result is the minimal rectangle: \<open>x\<close> and \<open>y\<close> are the least left and top edge,
  \<open>width\<close> and \<open>height\<close> the greatest right and bottom edge minus \<open>x\<close> and \<open>y\<close>.
\<close>

lemma absorb_null: "absorb e (entry None) = e"
  by (simp add: absorb_def entry_def)

lemma absorb_finite:
  "absorb \<lparr>minX = Num lx, minY = Num ly, maxX = Num hx, maxY = Num hy\<rparr> (entry (Some (finiteBox q)))
     = \<lparr>minX = Num (min lx (leftEdge q)), minY = Num (min ly (topEdge q)),
        maxX = Num (max hx (rightEdge q)), maxY = Num (max hy (bottomEdge q))\<rparr>"
  by (cases q) (simp add: absorb_def entry_def box_def)

lemma absorb_first:
  "absorb \<lparr>minX = PosInf, minY = PosInf, maxX = NegInf, maxY = NegInf\<rparr> (entry (Some (finiteBox q)))
     = \<lparr>minX = Num (leftEdge q), minY = Num (topEdge q),
        maxX = Num (rightEdge q), maxY = Num (bottomEdge q)\<rparr>"
  by (cases q) (simp add: absorb_def entry_def box_def)

lemma foldl_absorb_finite:
  "foldl absorb \<lparr>minX = Num lx, minY = Num ly, maxX = Num hx, maxY = Num hy\<rparr>
           (map entry (map (map_option finiteBox) qs))
         = \<lparr>minX = Num (fold min (map leftEdge (present qs)) lx),
            minY = Num (fold min (map topEdge (present qs)) ly),
            maxX = Num (fold max (map rightEdge (present qs)) hx),
            maxY = Num (fold max (map bottomEdge (present qs)) hy)\<rparr>"
proof (induction qs arbitrary: lx ly hx hy)
  case Nil
  show ?case by simp
next
  case (Cons q qs)
  show ?case
  proof (cases q)
    case None
    with Cons show ?thesis by (simp add: absorb_null)
  next
    case (Some r)
    with Cons show ?thesis by (simp add: absorb_finite min.commute max.commute)
  qed
qed

lemma foldl_absorb_initial:
  assumes "present qs \<noteq> []"
  shows "foldl absorb \<lparr>minX = PosInf, minY = PosInf, maxX = NegInf, maxY = NegInf\<rparr>
           (map entry (map (map_option finiteBox) qs))
         = \<lparr>minX = Num (Min (set (map leftEdge (present qs)))),
            minY = Num (Min (set (map topEdge (present qs)))),
            maxX = Num (Max (set (map rightEdge (present qs)))),
            maxY = Num (Max (set (map bottomEdge (present qs))))\<rparr>"
  using assms
proof (induction qs)
  case Nil
  then show ?case by simp
next
  case (Cons q qs)
  show ?case
  proof (cases q)
    case None
    with Cons show ?thesis by (simp add: absorb_null)
  next
    case (Some r)
    have "Min (set (map leftEdge (present (q # qs)))) = fold min (map leftEdge (present qs)) (leftEdge r)"
      "Min (set (map topEdge (present (q # qs)))) = fold min (map topEdge (present qs)) (topEdge r)"
      "Max (set (map rightEdge (present (q # qs)))) = fold max (map rightEdge (present qs)) (rightEdge r)"
      "Max (set (map bottomEdge (present (q # qs)))) = fold max (map bottomEdge (present qs)) (bottomEdge r)"
      unfolding Some by (simp_all only: present.simps list.map Min.set_eq_fold Max.set_eq_fold)
    then show ?thesis
      by (simp add: Some absorb_first foldl_absorb_finite del: map_map)
  qed
qed

lemma combine_minimal_rectangle:
  assumes "present qs \<noteq> []"
  shows "combineBoundingBoxes [Array (map (map_option finiteBox) qs)]
         = Some (box (Min (set (map leftEdge (present qs))))
                     (Min (set (map topEdge (present qs))))
                     (Max (set (map rightEdge (present qs))) - Min (set (map leftEdge (present qs))))
                     (Max (set (map bottomEdge (present qs))) - Min (set (map topEdge (present qs)))))"
proof -
  have "combineBoundingBoxes [Array (map (map_option finiteBox) qs)]
      = (let e = foldl absorb \<lparr>minX = PosInf, minY = PosInf, maxX = NegInf, maxY = NegInf\<rparr>
                   (map entry (map (map_option finiteBox) qs))
         in Some \<lparr>box_x = minX e, box_y = minY e,
                  box_width = maxX e - minX e, box_height = maxY e - minY e\<rparr>)"
    by (simp add: combineBoundingBoxes_def Let_def del: map_map)
  also have "\<dots> = Some (box (Min (set (map leftEdge (present qs))))
                     (Min (set (map topEdge (present qs))))
                     (Max (set (map rightEdge (present qs))) - Min (set (map leftEdge (present qs))))
                     (Max (set (map bottomEdge (present qs))) - Min (set (map topEdge (present qs)))))"
    unfolding foldl_absorb_initial [OF assms] by (simp add: box_def)
  finally show ?thesis .
qed

text \<open>
  C6. The claim: the result is \<open>null\<close> when the list is empty or every entry is
  \<open>null\<close>. The code returns \<open>null\<close> only when called with no argument at all. For
  \<open>combineBoundingBoxes(null, null)\<close>, \<open>combineBoundingBoxes([])\<close> and
  \<open>combineBoundingBoxes([null, null])\<close> the loop body never runs and the result is the
  object \<open>{x: Infinity, y: Infinity, width: -Infinity, height: -Infinity}\<close>.
\<close>

theorem all_absent_gives_infinite_box:
  "combineBoundingBoxes [Null, Null]
     = Some \<lparr>box_x = PosInf, box_y = PosInf, box_width = NegInf, box_height = NegInf\<rparr>
   \<and> combineBoundingBoxes [Array []]
     = Some \<lparr>box_x = PosInf, box_y = PosInf, box_width = NegInf, box_height = NegInf\<rparr>
   \<and> combineBoundingBoxes [Array [None, None]]
     = Some \<lparr>box_x = PosInf, box_y = PosInf, box_width = NegInf, box_height = NegInf\<rparr>"
  by (simp add: combine_simps)

text \<open>
  C7. The claim: combination is associative and commutative with \<open>null\<close> as identity.
  In the code \<open>combine(null, null)\<close> is the infinite box, not \<open>null\<close>, and feeding
  that box back in turns width and height into \<open>NaN\<close>: with \<open>u = {0, 0, 1, 1}\<close>,
  \<open>combine(combine(null, null), u)\<close> is \<open>{0, 0, NaN, NaN}\<close> while
  \<open>combine(null, combine(null, u))\<close> is \<open>u\<close>.
\<close>

theorem combine_not_associative_with_null:
  "combine None None
     = Some \<lparr>box_x = PosInf, box_y = PosInf, box_width = NegInf, box_height = NegInf\<rparr>
   \<and> combine (combine None None) (Some (box 0 0 1 1))
     = Some \<lparr>box_x = Num 0, box_y = Num 0, box_width = NaN, box_height = NaN\<rparr>
   \<and> combine None (combine None (Some (box 0 0 1 1))) = Some (box 0 0 1 1)"
  by (simp add: combine_def combine_simps)

text \<open>
  With boxes that are present and finite the combination of two is their minimal
  rectangle, \<open>null\<close> is neutral on either side, and the combination is commutative
  (for any two arguments) and associative.
\<close>

lemma combine_finite:
  "combine (Some (box a b w h)) (Some (box c d v k))
     = Some (box (min a c) (min b d) (max (a + w) (c + v) - min a c) (max (b + h) (d + k) - min b d))"
  by (simp add: combine_def combine_simps)

lemma combine_null_right: "combine (Some (box a b w h)) None = Some (box a b w h)"
  by (simp add: combine_def combine_simps)

lemma combine_null_left: "combine None (Some (box a b w h)) = Some (box a b w h)"
  by (simp add: combine_def combine_simps)

lemma Math_min_commute: "Math_min u v = Math_min v u"
  by (cases u; cases v) (simp_all add: min.commute)

lemma Math_max_commute: "Math_max u v = Math_max v u"
  by (cases u; cases v) (simp_all add: max.commute)

lemma Math_min_assoc: "Math_min (Math_min u v) w = Math_min u (Math_min v w)"
  by (cases u; cases v; cases w) (simp_all add: min.assoc)

lemma Math_max_assoc: "Math_max (Math_max u v) w = Math_max u (Math_max v w)"
  by (cases u; cases v; cases w) (simp_all add: max.assoc)

lemma Math_min_left_commute: "Math_min u (Math_min v w) = Math_min v (Math_min u w)"
  by (cases u; cases v; cases w) (simp_all add: min.left_commute)

lemma Math_max_left_commute: "Math_max u (Math_max v w) = Math_max v (Math_max u w)"
  by (cases u; cases v; cases w) (simp_all add: max.left_commute)

lemma combine_commute: "combine a b = combine b a"
proof -
  have "combineBoundingBoxes [u, v] = combineBoundingBoxes [v, u]"
    if "\<not> (\<exists>es. u = Array es)" "\<not> (\<exists>es. v = Array es)" for u v
    using that
    by (cases u; cases v)
       (simp_all add: combine_simps Math_min_commute Math_max_commute
          Math_min_left_commute Math_max_left_commute)
  moreover have "\<not> (\<exists>es. entry e = Array es)" for e
    by (cases e) (simp_all add: entry_def)
  ultimately show ?thesis by (simp add: combine_def)
qed

lemma combine_assoc_finite:
  "combine (combine (Some (box a1 b1 w1 h1)) (Some (box a2 b2 w2 h2))) (Some (box a3 b3 w3 h3))
   = combine (Some (box a1 b1 w1 h1)) (combine (Some (box a2 b2 w2 h2)) (Some (box a3 b3 w3 h3)))"
  by (simp add: combine_finite min.assoc max.assoc)

lemma entry_not_array: "(case entry e of Array es \<Rightarrow> f es | _ \<Rightarrow> d) = d"
  by (cases e) (simp_all add: entry_def)

text \<open>
  C10. The two call forms agree: for every non-empty list \<open>L\<close> of entries, each a box
  object or \<open>null\<close>, \<open>combineBoundingBoxes(L)\<close> equals \<open>combineBoundingBoxes(...L)\<close>.
\<close>

theorem call_forms_agree:
  assumes "L \<noteq> []"
  shows "combineBoundingBoxes [Array L] = combineBoundingBoxes (map entry L)"
proof -
  from assms obtain e es where L: "L = e # es" by (cases L) auto
  show ?thesis
    by (simp add: combineBoundingBoxes_def L entry_not_array del: foldl_Cons)
qed

theorem call_forms_agree_witness:
  "[Some (box 0 0 10 5), None, Some (box 5 (- 5) 10 10)] \<noteq> []
   \<and> combineBoundingBoxes [Array [Some (box 0 0 10 5), None, Some (box 5 (- 5) 10 10)]]
       = combineBoundingBoxes [Box (box 0 0 10 5), Null, Box (box 5 (- 5) 10 10)]"
  using call_forms_agree [of "[Some (box 0 0 10 5), None, Some (box 5 (- 5) 10 10)]"]
  by (simp add: entry_def)

end
